theory Spec2Isabelle
  imports Main "HOL-Library.Word" "HOL-Library.Signed_Division"
begin

section \<open>Board.h: positions, pieces, the board\<close>

text \<open>
  \<^verbatim>\<open>Pos_t\<close> holds two \<^verbatim>\<open>int8_t\<close> coordinates. They are 8-bit words here, read
  as two's complement by \<open>sint\<close>; the source's \<^verbatim>\<open>static_cast<int8_t>\<close> of an \<^verbatim>\<open>int\<close>
  result is the wrap-around of word arithmetic (or \<open>word_of_int\<close> of the \<^verbatim>\<open>int\<close>).
\<close>

type_synonym int8_t = "8 word"

record Pos_t =
  pos_x :: int8_t
  pos_y :: int8_t

record PlayerPiece_t =
  piece_pos :: Pos_t
  piece_name :: string

record WallPiece_t =
  wall_pos :: Pos_t
  vertical :: bool

record Board_t =
  players :: "PlayerPiece_t list"
  walls :: "WallPiece_t list"

text \<open>\<^verbatim>\<open>Pos_t::operator+\<close> and \<^verbatim>\<open>Pos_t::operator-\<close> of Board.cpp.\<close>

definition pos_add :: "Pos_t \<Rightarrow> Pos_t \<Rightarrow> Pos_t" where
  "pos_add a b = \<lparr>pos_x = pos_x a + pos_x b, pos_y = pos_y a + pos_y b\<rparr>"

definition pos_sub :: "Pos_t \<Rightarrow> Pos_t \<Rightarrow> Pos_t" where
  "pos_sub a b = \<lparr>pos_x = pos_x a - pos_x b, pos_y = pos_y a - pos_y b\<rparr>"

section \<open>tablegame\_engine: the engine state and its errors\<close>

text \<open>
  The three exception classes of tablegame\_engine.h, and the three ways the code can stop
  without throwing: a failed \<^verbatim>\<open>assert\<close> (the process aborts), a read past the end of
  the four-entry table \<^verbatim>\<open>player_positions\<close>, and the use of a \<^verbatim>\<open>std::unique_ptr\<close> that
  holds no object.
\<close>

datatype error =
    IllegalMoveException
  | PlayerNotFoundException
  | TooFewPlayersException
  | AssertionFailure
  | IndexOutOfBounds
  | NullPointerDereference

text \<open>
  The members of \<^verbatim>\<open>TablegameEngine_t\<close> and \<^verbatim>\<open>QuoridorEngine_t\<close>. The set
  \<^verbatim>\<open>m_walls_on_board\<close> is only ever searched and extended, so it is a HOL set, and
  \<^verbatim>\<open>find\<close> on it is membership (Board.h declares no ordering of \<^verbatim>\<open>WallPiece_t\<close>; the one
  the set is built with is taken to agree with \<^verbatim>\<open>operator==\<close>).
  \<^verbatim>\<open>m_current_player\<close> is an \<^verbatim>\<open>int\<close>; the only arithmetic on it is the increment
  of \<^verbatim>\<open>NextTurn\<close>, modelled on unbounded integers, as are the conversions of a vector's
  \<^verbatim>\<open>size()\<close> to \<^verbatim>\<open>int\<close> (the vectors here are far shorter than \<open>2 ^ 31\<close>).
\<close>

record QuoridorEngine_t =
  m_board :: Board_t
  m_current_player :: int
  m_walls_on_board :: "WallPiece_t set"

definition m_board_side_length :: int where
  "m_board_side_length = 9"

definition m_wall_pos_per_side :: int where
  "m_wall_pos_per_side = m_board_side_length - 1"

definition player_positions :: "Pos_t list" where
  "player_positions =
     [\<lparr>pos_x = 0, pos_y = 4\<rparr>, \<lparr>pos_x = 8, pos_y = 4\<rparr>,
      \<lparr>pos_x = 4, pos_y = 0\<rparr>, \<lparr>pos_x = 4, pos_y = 8\<rparr>]"

text \<open>Indexing a C array or a vector with \<^verbatim>\<open>[]\<close>: past the end it is an error here.\<close>

definition at_index :: "'a list \<Rightarrow> int \<Rightarrow> error + 'a" where
  "at_index xs i = (if 0 \<le> i \<and> i < int (length xs) then Inr (xs ! nat i) else Inl IndexOutOfBounds)"

subsection \<open>NextTurn\<close>

definition NextTurn :: "QuoridorEngine_t \<Rightarrow> QuoridorEngine_t" where
  "NextTurn e =
     (let players_count = int (length (players (m_board e)));
          c = m_current_player e + 1
      in e\<lparr>m_current_player := (if c = players_count then 0 else c)\<rparr>)"

subsection \<open>findPlayer, GetPlayerPos\<close>

text \<open>
  The iterator \<^verbatim>\<open>findPlayer\<close> returns is an index into the players (always below their
  number); \<open>None\<close> is \<^verbatim>\<open>end()\<close>.
\<close>

fun findPlayer_from :: "nat \<Rightarrow> PlayerPiece_t list \<Rightarrow> string \<Rightarrow> nat option" where
  "findPlayer_from i [] player_name = None"
| "findPlayer_from i (p # ps) player_name =
     (if piece_name p = player_name then Some i else findPlayer_from (Suc i) ps player_name)"

definition findPlayer :: "QuoridorEngine_t \<Rightarrow> string \<Rightarrow> nat option" where
  "findPlayer e player_name = findPlayer_from 0 (players (m_board e)) player_name"

definition GetPlayerPos :: "QuoridorEngine_t \<Rightarrow> string \<Rightarrow> error + nat" where
  "GetPlayerPos e player_name =
     (case findPlayer e player_name of
        None \<Rightarrow> Inl PlayerNotFoundException
      | Some i \<Rightarrow> Inr i)"

text \<open>
  \<^verbatim>\<open>GetPlayerPos\<close> returns a reference to the \<^verbatim>\<open>pos\<close> member of the piece found, which
  \<^verbatim>\<open>MovePlayer\<close> reads and then writes through. The reference is the index of the
  piece; \<open>pos_at\<close> reads it and \<open>set_pos_at\<close> assigns to it.
\<close>

definition pos_at :: "QuoridorEngine_t \<Rightarrow> nat \<Rightarrow> Pos_t" where
  "pos_at e i = piece_pos (players (m_board e) ! i)"

definition set_pos_at :: "QuoridorEngine_t \<Rightarrow> nat \<Rightarrow> Pos_t \<Rightarrow> QuoridorEngine_t" where
  "set_pos_at e i new_pos =
     e\<lparr>m_board := (m_board e)\<lparr>players :=
         (players (m_board e))[i := (players (m_board e) ! i)\<lparr>piece_pos := new_pos\<rparr>]\<rparr>\<rparr>"

subsection \<open>Grid geometry and the wall set\<close>

definition IsPosLegal :: "Pos_t \<Rightarrow> bool" where
  "IsPosLegal pos \<longleftrightarrow>
     sint (pos_x pos) \<ge> 0 \<and> sint (pos_x pos) < m_board_side_length \<and>
     sint (pos_y pos) \<ge> 0 \<and> sint (pos_y pos) < m_board_side_length"

definition IsWallLegal :: "WallPiece_t \<Rightarrow> bool" where
  "IsWallLegal wall \<longleftrightarrow>
     (let pos = wall_pos wall
      in sint (pos_x pos) \<ge> 0 \<and> sint (pos_x pos) < m_wall_pos_per_side \<and>
         sint (pos_y pos) \<ge> 0 \<and> sint (pos_y pos) < m_wall_pos_per_side)"

definition findWall :: "QuoridorEngine_t \<Rightarrow> WallPiece_t \<Rightarrow> bool" where
  "findWall e wall \<longleftrightarrow> wall \<in> m_walls_on_board e"

fun IsPosFree_list :: "PlayerPiece_t list \<Rightarrow> Pos_t \<Rightarrow> bool" where
  "IsPosFree_list [] pos = True"
| "IsPosFree_list (player_piece # ps) pos =
     (if piece_pos player_piece = pos then False else IsPosFree_list ps pos)"

definition IsPosFree :: "QuoridorEngine_t \<Rightarrow> Pos_t \<Rightarrow> bool" where
  "IsPosFree e pos = IsPosFree_list (players (m_board e)) pos"

subsection \<open>IsWallBetweenAdjPos\<close>

text \<open>
  Both overloads start with \<^verbatim>\<open>assert( abs( b.x - a.x ) + abs( b.y - a.y ) == 1 )\<close>, on
  \<^verbatim>\<open>int\<close> after promotion. Whether the assertion is compiled in depends on the build
  (\<^verbatim>\<open>NDEBUG\<close>), which is not part of the sources: the flag \<open>ndebug\<close> stands for it.
  With \<open>ndebug\<close> false a violated assertion aborts, which is \<open>Inl AssertionFailure\<close>;
  with \<open>ndebug\<close> true the body runs whatever the distance.
\<close>

definition adj_distance :: "Pos_t \<Rightarrow> Pos_t \<Rightarrow> int" where
  "adj_distance a b = \<bar>sint (pos_x b) - sint (pos_x a)\<bar> + \<bar>sint (pos_y b) - sint (pos_y a)\<bar>"

definition assert_fails :: "bool \<Rightarrow> Pos_t \<Rightarrow> Pos_t \<Rightarrow> bool" where
  "assert_fails ndebug a b = (if ndebug then False else adj_distance a b \<noteq> 1)"

definition IsWallBetweenAdjPos :: "bool \<Rightarrow> QuoridorEngine_t \<Rightarrow> Pos_t \<Rightarrow> Pos_t \<Rightarrow> error + bool" where
  "IsWallBetweenAdjPos ndebug e a b =
     (if assert_fails ndebug a b then Inl AssertionFailure
      else if \<not> IsPosLegal a \<or> \<not> IsPosLegal b then Inr True
      else
        (let x_min = (if sint (pos_x a) < sint (pos_x b) then pos_x a else pos_x b);
             y_min = (if sint (pos_y a) < sint (pos_y b) then pos_y a else pos_y b);
             vert = (y_min \<noteq> 0)
         in Inr (findWall e \<lparr>wall_pos = \<lparr>pos_x = x_min, pos_y = y_min\<rparr>, vertical = \<not> vert\<rparr> \<or>
                 findWall e \<lparr>wall_pos = \<lparr>pos_x = x_min - of_bool vert,
                                           pos_y = y_min - of_bool (\<not> vert)\<rparr>,
                             vertical = \<not> vert\<rparr>)))"

definition IsWallBetweenAdjPos_wall :: "bool \<Rightarrow> Pos_t \<Rightarrow> Pos_t \<Rightarrow> WallPiece_t \<Rightarrow> error + bool" where
  "IsWallBetweenAdjPos_wall ndebug a b wall =
     (if assert_fails ndebug a b then Inl AssertionFailure
      else if \<not> IsPosLegal a \<or> \<not> IsPosLegal b \<or> \<not> IsWallLegal wall then Inr False
      else
        (let x_min = (if sint (pos_x a) < sint (pos_x b) then pos_x a else pos_x b);
             y_min = (if sint (pos_y a) < sint (pos_y b) then pos_y a else pos_y b);
             vert = (y_min \<noteq> 0)
         in Inr (vert \<noteq> vertical wall \<and>
                 (wall_pos wall = \<lparr>pos_x = x_min, pos_y = y_min\<rparr> \<or>
                  wall_pos wall = \<lparr>pos_x = x_min - of_bool vert,
                                    pos_y = y_min - of_bool (\<not> vert)\<rparr>))))"

subsection \<open>CheckMove\<close>

text \<open>
  The \<^verbatim>\<open>&&\<close> chain of the diagonal branch, for one candidate \<^verbatim>\<open>pos_jump_over\<close>: it
  evaluates left to right and stops at the first false operand, so a later call to
  \<^verbatim>\<open>IsWallBetweenAdjPos\<close> (and its assertion) only happens when the earlier ones passed.
\<close>

definition diagonal_candidate ::
  "bool \<Rightarrow> QuoridorEngine_t \<Rightarrow> Pos_t \<Rightarrow> Pos_t \<Rightarrow> Pos_t \<Rightarrow> error + bool" where
  "diagonal_candidate ndebug e cur_pos new_pos pos_jump_over =
     (let pos_straight_jump_to =
            \<lparr>pos_x = 2 * pos_x cur_pos - pos_x pos_jump_over,
             pos_y = 2 * pos_y cur_pos - pos_y pos_jump_over\<rparr>
      in if IsPosFree e pos_jump_over then Inr False
         else
           (case IsWallBetweenAdjPos ndebug e pos_jump_over pos_straight_jump_to of
              Inl err \<Rightarrow> Inl err
            | Inr False \<Rightarrow> Inr False
            | Inr True \<Rightarrow>
                (case IsWallBetweenAdjPos ndebug e cur_pos pos_jump_over of
                   Inl err \<Rightarrow> Inl err
                 | Inr True \<Rightarrow> Inr False
                 | Inr False \<Rightarrow>
                     (case IsWallBetweenAdjPos ndebug e pos_jump_over new_pos of
                        Inl err \<Rightarrow> Inl err
                      | Inr True \<Rightarrow> Inr False
                      | Inr False \<Rightarrow> Inr True))))"

text \<open>The \<^verbatim>\<open>for\<close> loop of the diagonal branch over its two candidates.\<close>

fun diagonal_loop ::
  "bool \<Rightarrow> QuoridorEngine_t \<Rightarrow> Pos_t \<Rightarrow> Pos_t \<Rightarrow> Pos_t list \<Rightarrow> error + bool" where
  "diagonal_loop ndebug e cur_pos new_pos [] = Inr False"
| "diagonal_loop ndebug e cur_pos new_pos (pos_jump_over # rest) =
     (case diagonal_candidate ndebug e cur_pos new_pos pos_jump_over of
        Inl err \<Rightarrow> Inl err
      | Inr True \<Rightarrow> Inr True
      | Inr False \<Rightarrow> diagonal_loop ndebug e cur_pos new_pos rest)"

definition CheckMove :: "bool \<Rightarrow> QuoridorEngine_t \<Rightarrow> Pos_t \<Rightarrow> Pos_t \<Rightarrow> error + bool" where
  "CheckMove ndebug e cur_pos new_pos =
     (if \<not> IsPosLegal new_pos then Inr False
      else if \<not> IsPosFree e new_pos then Inr False
      else
        (let x_diff = pos_x new_pos - pos_x cur_pos;
             y_diff = pos_y new_pos - pos_y cur_pos;
             pos_diff = (word_of_int (\<bar>sint x_diff\<bar> + \<bar>sint y_diff\<bar>) :: int8_t)
         in if sint pos_diff = 0 \<or> sint pos_diff > 2 then Inr False
            else
              (case IsWallBetweenAdjPos ndebug e cur_pos new_pos of
                 Inl err \<Rightarrow> Inl err
               | Inr True \<Rightarrow> Inr False
               | Inr False \<Rightarrow>
                   if sint pos_diff = 1 then Inr True
                   else if \<bar>sint y_diff\<bar> = 2 \<or> \<bar>sint x_diff\<bar> = 2 then
                     (let pos_jump_over =
                            \<lparr>pos_x = word_of_int (sint (pos_x cur_pos) + sint x_diff sdiv 2),
                             pos_y = word_of_int (sint (pos_y cur_pos) + sint y_diff sdiv 2)\<rparr>
                      in if IsPosFree e pos_jump_over then Inr False
                         else IsWallBetweenAdjPos ndebug e pos_jump_over new_pos)
                   else
                     diagonal_loop ndebug e cur_pos new_pos
                       [\<lparr>pos_x = pos_x cur_pos, pos_y = pos_y new_pos\<rparr>,
                        \<lparr>pos_x = pos_x new_pos, pos_y = pos_y cur_pos\<rparr>])))"

subsection \<open>CheckAddWall\<close>

definition CheckAddWall :: "QuoridorEngine_t \<Rightarrow> WallPiece_t \<Rightarrow> bool" where
  "CheckAddWall e wall =
     (if \<not> IsWallLegal wall then False
      else
        (let x = pos_x (wall_pos wall);
             y = pos_y (wall_pos wall);
             vert = vertical wall
         in \<not> findWall e wall \<and>
            \<not> findWall e \<lparr>wall_pos = wall_pos wall, vertical = \<not> vert\<rparr> \<and>
            \<not> findWall e \<lparr>wall_pos = \<lparr>pos_x = x + of_bool (\<not> vert), pos_y = y + of_bool vert\<rparr>,
                            vertical = vert\<rparr> \<and>
            \<not> findWall e \<lparr>wall_pos = \<lparr>pos_x = x - of_bool (\<not> vert), pos_y = y - of_bool vert\<rparr>,
                            vertical = vert\<rparr>))"

subsection \<open>The commands: MovePlayer, AddWall, QuoridorInit\<close>

text \<open>
  A command returns the exception it threw (or the abort it ran into), if any, and the
  engine as the call leaves it. Every write of the source is a state update here, in the
  source's order, so what a failing call leaves behind can be read off the result.
\<close>

type_synonym outcome = "error option \<times> QuoridorEngine_t"

definition MovePlayer :: "bool \<Rightarrow> QuoridorEngine_t \<Rightarrow> string \<Rightarrow> Pos_t \<Rightarrow> outcome" where
  "MovePlayer ndebug e player_name new_pos =
     (case GetPlayerPos e player_name of
        Inl err \<Rightarrow> (Some err, e)
      | Inr player_pos \<Rightarrow>
          (case CheckMove ndebug e (pos_at e player_pos) new_pos of
             Inl err \<Rightarrow> (Some err, e)
           | Inr False \<Rightarrow> (Some IllegalMoveException, e)
           | Inr True \<Rightarrow> (None, set_pos_at e player_pos new_pos)))"

definition AddWall :: "QuoridorEngine_t \<Rightarrow> WallPiece_t \<Rightarrow> outcome" where
  "AddWall e wall =
     (if \<not> CheckAddWall e wall then (Some IllegalMoveException, e)
      else
        (let e1 = e\<lparr>m_board := (m_board e)\<lparr>walls := walls (m_board e) @ [wall]\<rparr>\<rparr>;
             e2 = e1\<lparr>m_walls_on_board := insert wall (m_walls_on_board e1)\<rparr>
         in (None, e2)))"

text \<open>The \<^verbatim>\<open>for\<close> loop of \<^verbatim>\<open>QuoridorInit\<close>, over the values of \<^verbatim>\<open>i\<close>.\<close>

fun init_loop :: "QuoridorEngine_t \<Rightarrow> string list \<Rightarrow> int list \<Rightarrow> outcome" where
  "init_loop e player_names [] = (None, e)"
| "init_loop e player_names (i # rest) =
     (case at_index player_positions i of
        Inl err \<Rightarrow> (Some err, e)
      | Inr p \<Rightarrow>
          (case at_index player_names i of
             Inl err \<Rightarrow> (Some err, e)
           | Inr n \<Rightarrow>
               init_loop
                 (e\<lparr>m_board := (m_board e)\<lparr>players :=
                      players (m_board e) @ [\<lparr>piece_pos = p, piece_name = n\<rparr>]\<rparr>\<rparr>)
                 player_names rest))"

definition QuoridorInit :: "QuoridorEngine_t \<Rightarrow> string list \<Rightarrow> outcome" where
  "QuoridorInit e player_names =
     (let player_names_size = int (length player_names)
      in if player_names_size < 2 then (Some TooFewPlayersException, e)
         else
           (let player_names_size = (if player_names_size \<ge> 4 then 4 else 2)
            in init_loop e player_names [0..player_names_size - 1]))"

subsection \<open>GetGoalPosForPlayerIndex\<close>

text \<open>
  The loop \<^verbatim>\<open>for ( ; j < m_board_side_length; j++ )\<close> on the \<^verbatim>\<open>int8_t\<close> counter. The two
  pointers select which coordinate is the counter: \<open>on_column\<close> is the branch
  \<^verbatim>\<open>player_positions[ player_index ].y == 4\<close>.
\<close>

function goal_loop :: "Pos_t set \<Rightarrow> bool \<Rightarrow> int8_t \<Rightarrow> int8_t \<Rightarrow> Pos_t set" where
  "goal_loop goal_pos on_column opposite_side_coordinate j =
     (if sint j < m_board_side_length
      then goal_loop
             (insert (if on_column then \<lparr>pos_x = opposite_side_coordinate, pos_y = j\<rparr>
                      else \<lparr>pos_x = j, pos_y = opposite_side_coordinate\<rparr>) goal_pos)
             on_column opposite_side_coordinate (j + 1)
      else goal_pos)"
  by pat_completeness auto
termination
proof (relation "measure (\<lambda>(g, c, opp, j). nat (m_board_side_length - sint j))")
  show "wf (measure (\<lambda>(g, c, opp, j). nat (m_board_side_length - sint j)))" by simp
next
  fix goal_pos :: "Pos_t set" and on_column :: bool and opp j :: int8_t
  assume a: "sint j < m_board_side_length"
  have "sint (j + 1) = sint j + 1"
    using a sint_ge [of j]
    by (simp add: m_board_side_length_def sint_word_ariths signed_take_bit_int_eq_self)
  then show "((insert (if on_column then \<lparr>pos_x = opp, pos_y = j\<rparr>
                       else \<lparr>pos_x = j, pos_y = opp\<rparr>) goal_pos, on_column, opp, j + 1),
              goal_pos, on_column, opp, j)
             \<in> measure (\<lambda>(g, c, opp, j). nat (m_board_side_length - sint j))"
    using a by simp
qed

definition GetGoalPosForPlayerIndex :: "int \<Rightarrow> error + Pos_t set" where
  "GetGoalPosForPlayerIndex player_index =
     (if player_index < 0 \<or> player_index > 4 then Inr {}
      else
        (case at_index player_positions player_index of
           Inl err \<Rightarrow> Inl err
         | Inr start \<Rightarrow>
             (let opposite_side_coordinate =
                    (word_of_int (m_board_side_length - 1 - sint (pos_x start)) :: int8_t)
              in Inr (goal_loop {} (sint (pos_y start) = 4) opposite_side_coordinate 0))))"

subsection \<open>CheckWallBlocksPath\<close>

text \<open>
  \<^verbatim>\<open>std::set<Pos_t>\<close> and \<^verbatim>\<open>std::multimap<Pos_t, Pos_t>\<close> need an ordering of \<^verbatim>\<open>Pos_t\<close>,
  which Board.h does not declare: it is the parameter \<open>lt\<close>. A container is the list of
  its elements in iteration order. \<open>lt\<close> only decides where an element goes; whether two
  positions are the same element (for \<^verbatim>\<open>insert\<close>, \<^verbatim>\<open>erase\<close> and \<^verbatim>\<open>find\<close>) is equality.
\<close>

type_synonym pos_less = "Pos_t \<Rightarrow> Pos_t \<Rightarrow> bool"

fun insert_sorted :: "pos_less \<Rightarrow> ('a \<Rightarrow> Pos_t) \<Rightarrow> 'a \<Rightarrow> 'a list \<Rightarrow> 'a list" where
  "insert_sorted lt key v [] = [v]"
| "insert_sorted lt key v (w # ws) =
     (if lt (key v) (key w) then v # w # ws else w # insert_sorted lt key v ws)"

definition set_insert :: "pos_less \<Rightarrow> Pos_t \<Rightarrow> Pos_t list \<Rightarrow> Pos_t list" where
  "set_insert lt p ps = (if p \<in> set ps then ps else insert_sorted lt (\<lambda>q. q) p ps)"

definition multimap_insert ::
  "pos_less \<Rightarrow> Pos_t \<times> Pos_t \<Rightarrow> (Pos_t \<times> Pos_t) list \<Rightarrow> (Pos_t \<times> Pos_t) list" where
  "multimap_insert lt kv kvs = insert_sorted lt fst kv kvs"

definition multimap_erase :: "Pos_t \<Rightarrow> (Pos_t \<times> Pos_t) list \<Rightarrow> (Pos_t \<times> Pos_t) list" where
  "multimap_erase k kvs = filter (\<lambda>kv. fst kv \<noteq> k) kvs"

definition left :: Pos_t where "left = \<lparr>pos_x = - 1, pos_y = 0\<rparr>"
definition right :: Pos_t where "right = \<lparr>pos_x = 1, pos_y = 0\<rparr>"
definition up :: Pos_t where "up = \<lparr>pos_x = 0, pos_y = - 1\<rparr>"
definition down :: Pos_t where "down = \<lparr>pos_x = 0, pos_y = 1\<rparr>"

text \<open>The body of \<^verbatim>\<open>for ( auto& pos : *reachable_pos )\<close>: four insertions.\<close>

definition insert_neighbours ::
  "pos_less \<Rightarrow> Pos_t \<Rightarrow> (Pos_t \<times> Pos_t) list \<Rightarrow> (Pos_t \<times> Pos_t) list" where
  "insert_neighbours lt pos to_from_check_pairs =
     multimap_insert lt (pos_add pos down, pos)
       (multimap_insert lt (pos_add pos up, pos)
         (multimap_insert lt (pos_add pos right, pos)
           (multimap_insert lt (pos_add pos left, pos) to_from_check_pairs)))"

text \<open>
  The loop \<^verbatim>\<open>for( auto& pos_pair : to_from_check_pairs )\<close>: the result is \<^verbatim>\<open>do_break\<close>
  and \<^verbatim>\<open>reachable_pos\<close>. In a pair, \<^verbatim>\<open>first\<close> is the neighbour and \<^verbatim>\<open>second\<close> the
  position it was computed from.
\<close>

fun check_pairs ::
  "pos_less \<Rightarrow> bool \<Rightarrow> QuoridorEngine_t \<Rightarrow> WallPiece_t \<Rightarrow> Pos_t set \<Rightarrow>
   (Pos_t \<times> Pos_t) list \<Rightarrow> Pos_t list \<Rightarrow> error + bool \<times> Pos_t list" where
  "check_pairs lt ndebug e wall goal_pos [] reachable_pos = Inr (False, reachable_pos)"
| "check_pairs lt ndebug e wall goal_pos (pos_pair # rest) reachable_pos =
     (case IsWallBetweenAdjPos ndebug e (snd pos_pair) (fst pos_pair) of
        Inl err \<Rightarrow> Inl err
      | Inr True \<Rightarrow> check_pairs lt ndebug e wall goal_pos rest reachable_pos
      | Inr False \<Rightarrow>
          (case IsWallBetweenAdjPos_wall ndebug (snd pos_pair) (fst pos_pair) wall of
             Inl err \<Rightarrow> Inl err
           | Inr True \<Rightarrow> check_pairs lt ndebug e wall goal_pos rest reachable_pos
           | Inr False \<Rightarrow>
               if snd pos_pair \<in> goal_pos then Inr (True, reachable_pos)
               else check_pairs lt ndebug e wall goal_pos rest
                      (set_insert lt (snd pos_pair) reachable_pos)))"

text \<open>
  \<^verbatim>\<open>UPTR( std::set<Pos_t> ) reachable_pos {}, last_iter_pos {};\<close> declares two
  \<^verbatim>\<open>std::unique_ptr\<close>, both value-initialised: they hold no set until one is assigned
  (\<^verbatim>\<open>std::make_unique\<close>, or a move from a pointer that holds one). A pointer is \<open>None\<close>
  while it holds nothing; \<^verbatim>\<open>->\<close> and \<^verbatim>\<open>*\<close> on it go through \<open>deref\<close>.
\<close>

type_synonym 'a unique_ptr = "'a option"

definition deref :: "'a unique_ptr \<Rightarrow> error + 'a" where
  "deref p = (case p of None \<Rightarrow> Inl NullPointerDereference | Some v \<Rightarrow> Inr v)"

text \<open>
  One pass through the body of \<^verbatim>\<open>while( true )\<close>, on the three containers
  \<^verbatim>\<open>reachable_pos\<close>, \<^verbatim>\<open>last_iter_pos\<close> and \<^verbatim>\<open>to_from_check_pairs\<close>. It ends in an abort,
  in leaving the loop (\<^verbatim>\<open>break\<close>, or \<^verbatim>\<open>return true\<close> from the function), or in the
  containers the next pass starts from. After \<^verbatim>\<open>last_iter_pos = std::move( reachable_pos )\<close>
  the pair loop fills the set \<^verbatim>\<open>std::make_unique\<close> has just created.
\<close>

datatype loop_exit = Break | ReturnTrue

type_synonym containers =
  "Pos_t list unique_ptr \<times> Pos_t list unique_ptr \<times> (Pos_t \<times> Pos_t) list"

definition while_body ::
  "pos_less \<Rightarrow> bool \<Rightarrow> QuoridorEngine_t \<Rightarrow> WallPiece_t \<Rightarrow> Pos_t set \<Rightarrow> containers \<Rightarrow>
   error + (loop_exit + containers)" where
  "while_body lt ndebug e wall goal_pos c =
     (case c of (reachable_pos, last_iter_pos, to_from_check_pairs) \<Rightarrow>
        (case deref reachable_pos of
           Inl err \<Rightarrow> Inl err
         | Inr reachable \<Rightarrow>
             (let pairs1 = fold (insert_neighbours lt) reachable to_from_check_pairs
              in case deref last_iter_pos of
                   Inl err \<Rightarrow> Inl err
                 | Inr last_iter \<Rightarrow>
                     (let pairs2 = fold multimap_erase last_iter pairs1;
                          last_iter_pos = reachable_pos
                      in case check_pairs lt ndebug e wall goal_pos pairs2 [] of
                           Inl err \<Rightarrow> Inl err
                         | Inr (do_break, reachable) \<Rightarrow>
                             if do_break then Inr (Inl Break)
                             else if reachable = [] then Inr (Inl ReturnTrue)
                             else Inr (Inr (Some reachable, last_iter_pos, []))))))"

text \<open>\<^verbatim>\<open>while( true )\<close> may run forever: \<open>None\<close> is the loop that never leaves.\<close>

partial_function (option) while_true ::
  "pos_less \<Rightarrow> bool \<Rightarrow> QuoridorEngine_t \<Rightarrow> WallPiece_t \<Rightarrow> Pos_t set \<Rightarrow> containers \<Rightarrow>
   (error + loop_exit) option" where
  "while_true lt ndebug e wall goal_pos c =
     (case while_body lt ndebug e wall goal_pos c of
        Inl err \<Rightarrow> Some (Inl err)
      | Inr (Inl ex) \<Rightarrow> Some (Inr ex)
      | Inr (Inr c') \<Rightarrow> while_true lt ndebug e wall goal_pos c')"

text \<open>
  The outer loop over \<^verbatim>\<open>player_index\<close>, and the function. Each round declares the two
  pointers and the multimap anew, then calls \<^verbatim>\<open>reachable_pos->insert( player_pos )\<close>.
\<close>

fun players_loop ::
  "pos_less \<Rightarrow> bool \<Rightarrow> QuoridorEngine_t \<Rightarrow> WallPiece_t \<Rightarrow> nat list \<Rightarrow> (error + bool) option" where
  "players_loop lt ndebug e wall [] = Some (Inr False)"
| "players_loop lt ndebug e wall (player_index # rest) =
     (let player_pos = piece_pos (players (m_board e) ! player_index)
      in case GetGoalPosForPlayerIndex (int player_index) of
           Inl err \<Rightarrow> Some (Inl err)
         | Inr goal_pos \<Rightarrow>
             (let reachable_pos = (None :: Pos_t list unique_ptr);
                  last_iter_pos = (None :: Pos_t list unique_ptr);
                  to_from_check_pairs = []
              in case deref reachable_pos of
                   Inl err \<Rightarrow> Some (Inl err)
                 | Inr reachable \<Rightarrow>
                     (case while_true lt ndebug e wall goal_pos
                             (Some (set_insert lt player_pos reachable), last_iter_pos,
                              to_from_check_pairs) of
                        None \<Rightarrow> None
                      | Some (Inl err) \<Rightarrow> Some (Inl err)
                      | Some (Inr ReturnTrue) \<Rightarrow> Some (Inr True)
                      | Some (Inr Break) \<Rightarrow> players_loop lt ndebug e wall rest)))"

definition CheckWallBlocksPath ::
  "pos_less \<Rightarrow> bool \<Rightarrow> QuoridorEngine_t \<Rightarrow> WallPiece_t \<Rightarrow> (error + bool) option" where
  "CheckWallBlocksPath lt ndebug e wall =
     players_loop lt ndebug e wall [0..<length (players (m_board e))]"

section \<open>Boards used as concrete inputs\<close>

text \<open>A default-constructed engine, and the rosters \<^verbatim>\<open>QuoridorInit\<close> builds on it.\<close>

definition empty_engine :: QuoridorEngine_t where
  "empty_engine =
     \<lparr>m_board = \<lparr>players = [], walls = []\<rparr>, m_current_player = 0, m_walls_on_board = {}\<rparr>"

definition start_engine :: "string list \<Rightarrow> QuoridorEngine_t" where
  "start_engine player_names = snd (QuoridorInit empty_engine player_names)"

text \<open>
  Two pieces side by side on the middle row, \<open>''A''\<close> at (0,4) and \<open>''B''\<close> at (1,4), and
  one wall far from them.
\<close>

definition side_by_side :: QuoridorEngine_t where
  "side_by_side =
     \<lparr>m_board =
        \<lparr>players = [\<lparr>piece_pos = \<lparr>pos_x = 0, pos_y = 4\<rparr>, piece_name = ''A''\<rparr>,
                    \<lparr>piece_pos = \<lparr>pos_x = 1, pos_y = 4\<rparr>, piece_name = ''B''\<rparr>],
         walls = [\<lparr>wall_pos = \<lparr>pos_x = 6, pos_y = 6\<rparr>, vertical = True\<rparr>]\<rparr>,
      m_current_player = 0,
      m_walls_on_board = {\<lparr>wall_pos = \<lparr>pos_x = 6, pos_y = 6\<rparr>, vertical = True\<rparr>}\<rparr>"

text \<open>
  The two-player roster on its start positions with one horizontal wall in slot (0,4):
  what \<^verbatim>\<open>QuoridorInit\<close> and one \<^verbatim>\<open>AddWall\<close> build on a default-constructed engine.
\<close>

definition start_with_wall :: QuoridorEngine_t where
  "start_with_wall =
     \<lparr>m_board =
        \<lparr>players = [\<lparr>piece_pos = \<lparr>pos_x = 0, pos_y = 4\<rparr>, piece_name = ''A''\<rparr>,
                    \<lparr>piece_pos = \<lparr>pos_x = 8, pos_y = 4\<rparr>, piece_name = ''B''\<rparr>],
         walls = [\<lparr>wall_pos = \<lparr>pos_x = 0, pos_y = 4\<rparr>, vertical = False\<rparr>]\<rparr>,
      m_current_player = 0,
      m_walls_on_board = {\<lparr>wall_pos = \<lparr>pos_x = 0, pos_y = 4\<rparr>, vertical = False\<rparr>}\<rparr>"

text \<open>
  Whether a placed wall crosses the edge between two adjacent cells, in the spec's words
  for the wall test (section 4.2): the walls that separate \<open>a\<close> and \<open>b\<close> are the
  perpendicular ones at the lower of the two coordinates or one slot off, depending on
  the axis. A step along \<open>x\<close> is crossed by a vertical wall in slot \<open>(x_min, y_min)\<close> or
  \<open>(x_min, y_min - 1)\<close>, a step along \<open>y\<close> by a horizontal wall in slot \<open>(x_min, y_min)\<close>
  or \<open>(x_min - 1, y_min)\<close>. This is the geometry the overlap tests of \<^verbatim>\<open>CheckAddWall\<close>
  fix (a horizontal wall runs along \<open>x\<close>, a vertical one along \<open>y\<close>). It differs from
  \<^verbatim>\<open>IsWallBetweenAdjPos\<close> in one place: the axis is read off the step, not off
  \<^verbatim>\<open>y_min != 0\<close>.
\<close>

definition placed_wall_crosses :: "QuoridorEngine_t \<Rightarrow> Pos_t \<Rightarrow> Pos_t \<Rightarrow> bool" where
  "placed_wall_crosses e a b =
     (let x_min = (if sint (pos_x a) < sint (pos_x b) then pos_x a else pos_x b);
          y_min = (if sint (pos_y a) < sint (pos_y b) then pos_y a else pos_y b);
          along_y = (pos_y a \<noteq> pos_y b)
      in findWall e \<lparr>wall_pos = \<lparr>pos_x = x_min, pos_y = y_min\<rparr>, vertical = \<not> along_y\<rparr> \<or>
         findWall e \<lparr>wall_pos = \<lparr>pos_x = x_min - of_bool along_y,
                                   pos_y = y_min - of_bool (\<not> along_y)\<rparr>,
                     vertical = \<not> along_y\<rparr>)"

text \<open>
  The cell halfway between two cells that are two apart on one axis: what the straight-jump
  branch of \<^verbatim>\<open>CheckMove\<close> computes as \<^verbatim>\<open>pos_jump_over\<close>.
\<close>

definition midpoint :: "Pos_t \<Rightarrow> Pos_t \<Rightarrow> Pos_t" where
  "midpoint a b =
     \<lparr>pos_x = word_of_int ((sint (pos_x a) + sint (pos_x b)) div 2),
      pos_y = word_of_int ((sint (pos_y a) + sint (pos_y b)) div 2)\<rparr>"

text \<open>One ordering of positions an instantiation of the containers could use.\<close>

definition by_x_then_y :: pos_less where
  "by_x_then_y a b \<longleftrightarrow>
     sint (pos_x a) < sint (pos_x b) \<or> (pos_x a = pos_x b \<and> sint (pos_y a) < sint (pos_y b))"

text \<open>A wall outside the legal slot range: no hypothetical wall is in effect.\<close>

definition no_wall :: WallPiece_t where
  "no_wall = \<lparr>wall_pos = \<lparr>pos_x = - 1, pos_y = - 1\<rparr>, vertical = False\<rparr>"

section \<open>Properties\<close>

subsection \<open>Arithmetic on coordinates\<close>

lemma sint_diff_int8:
  fixes a b :: int8_t
  assumes "- 128 \<le> sint a - sint b" and "sint a - sint b < 128"
  shows "sint (a - b) = sint a - sint b"
  using assms by (simp add: sint_word_ariths signed_take_bit_int_eq_self)

lemmas geometry_defs =
  IsPosLegal_def IsWallLegal_def IsPosFree_def findWall_def adj_distance_def assert_fails_def
  m_board_side_length_def m_wall_pos_per_side_def

subsection \<open>CheckMove\<close>

lemma start_with_wall_is_reachable:
  "AddWall (start_engine [''A'', ''B'']) \<lparr>wall_pos = \<lparr>pos_x = 0, pos_y = 4\<rparr>, vertical = False\<rparr>
     = (None, start_with_wall)"
  by (simp add: AddWall_def CheckAddWall_def geometry_defs start_engine_def QuoridorInit_def
      upto.simps at_index_def player_positions_def empty_engine_def start_with_wall_def)

text \<open>
  C3. The claim: a target next to the current position that is a legal cell, is not
  occupied, and has no placed wall across the edge to it is a legal move whatever else
  is on the board. The code's wall test takes the wall orientation it looks for from
  \<^verbatim>\<open>y_min != 0\<close>, not from the direction of the step: on the start board with one
  horizontal wall in slot (0,4), the step from (0,4) to (1,4) along the row is crossed by
  no wall, and \<^verbatim>\<open>CheckMove\<close> returns false in either build, so \<^verbatim>\<open>MovePlayer\<close> throws.
\<close>

theorem CheckMove_rejects_unwalled_step:
  "IsPosLegal \<lparr>pos_x = 1, pos_y = 4\<rparr> \<and>
   IsPosFree start_with_wall \<lparr>pos_x = 1, pos_y = 4\<rparr> \<and>
   adj_distance \<lparr>pos_x = 0, pos_y = 4\<rparr> \<lparr>pos_x = 1, pos_y = 4\<rparr> = 1 \<and>
   placed_wall_crosses start_with_wall \<lparr>pos_x = 0, pos_y = 4\<rparr> \<lparr>pos_x = 1, pos_y = 4\<rparr> = False \<and>
   CheckMove True start_with_wall \<lparr>pos_x = 0, pos_y = 4\<rparr> \<lparr>pos_x = 1, pos_y = 4\<rparr> = Inr False \<and>
   CheckMove False start_with_wall \<lparr>pos_x = 0, pos_y = 4\<rparr> \<lparr>pos_x = 1, pos_y = 4\<rparr> = Inr False \<and>
   MovePlayer False start_with_wall ''A'' \<lparr>pos_x = 1, pos_y = 4\<rparr>
     = (Some IllegalMoveException, start_with_wall)"
  by (simp add: MovePlayer_def GetPlayerPos_def findPlayer_def pos_at_def CheckMove_def
      IsWallBetweenAdjPos_def placed_wall_crosses_def geometry_defs start_with_wall_def)

lemma coordinate_differences:
  fixes cur_pos new_pos :: Pos_t
  assumes "adj_distance cur_pos new_pos = d" and "d < 128"
  shows "sint (pos_x new_pos - pos_x cur_pos) = sint (pos_x new_pos) - sint (pos_x cur_pos)"
    and "sint (pos_y new_pos - pos_y cur_pos) = sint (pos_y new_pos) - sint (pos_y cur_pos)"
    and "sint (word_of_int (\<bar>sint (pos_x new_pos) - sint (pos_x cur_pos)\<bar>
                            + \<bar>sint (pos_y new_pos) - sint (pos_y cur_pos)\<bar>) :: int8_t) = d"
proof -
  show "sint (pos_x new_pos - pos_x cur_pos) = sint (pos_x new_pos) - sint (pos_x cur_pos)"
    using assms by (intro sint_diff_int8) (auto simp: adj_distance_def)
  show "sint (pos_y new_pos - pos_y cur_pos) = sint (pos_y new_pos) - sint (pos_y cur_pos)"
    using assms by (intro sint_diff_int8) (auto simp: adj_distance_def)
  have "0 \<le> d"
    using assms(1) by (auto simp: adj_distance_def)
  then show "sint (word_of_int (\<bar>sint (pos_x new_pos) - sint (pos_x cur_pos)\<bar>
                            + \<bar>sint (pos_y new_pos) - sint (pos_y cur_pos)\<bar>) :: int8_t) = d"
    using assms unfolding adj_distance_def
    by (simp only: sint_sbintrunc') (simp add: signed_take_bit_int_eq_self)
qed

lemma halfway:
  fixes c n :: int
  assumes "n - c = 2 \<or> n - c = 0 \<or> n - c = - 2"
  shows "c + (n - c) sdiv 2 = (c + n) div 2"
proof -
  from assms consider "n = c + 2" | "n = c" | "n = c - 2"
    by linarith
  then show ?thesis
    by cases (simp_all add: signed_divide_int_def)
qed

text \<open>
  C1. The claim: for a legal, unoccupied target two cells away on one axis, with the
  midpoint occupied and the wall check between current and target position passed,
  \<^verbatim>\<open>CheckMove\<close> returns true if and only if there is no wall between the midpoint and
  the target. The code returns the wall test itself, not its negation: in the build
  without assertions, under these hypotheses \<^verbatim>\<open>CheckMove\<close> is true exactly when
  \<^verbatim>\<open>IsWallBetweenAdjPos\<close> reports a wall between the midpoint and the target. (The
  diagonal branch negates the same test.)
\<close>

theorem CheckMove_straight_jump_returns_wall_test:
  assumes "IsPosLegal new_pos"
    and "IsPosFree e new_pos"
    and "adj_distance cur_pos new_pos = 2"
    and "pos_x cur_pos = pos_x new_pos \<or> pos_y cur_pos = pos_y new_pos"
    and "\<not> IsPosFree e (midpoint cur_pos new_pos)"
    and "IsWallBetweenAdjPos True e cur_pos new_pos = Inr False"
  shows "CheckMove True e cur_pos new_pos =
           IsWallBetweenAdjPos True e (midpoint cur_pos new_pos) new_pos"
proof -
  have d: "sint (pos_x new_pos - pos_x cur_pos) = sint (pos_x new_pos) - sint (pos_x cur_pos)"
    "sint (pos_y new_pos - pos_y cur_pos) = sint (pos_y new_pos) - sint (pos_y cur_pos)"
    "sint (word_of_int (\<bar>sint (pos_x new_pos) - sint (pos_x cur_pos)\<bar>
                        + \<bar>sint (pos_y new_pos) - sint (pos_y cur_pos)\<bar>) :: int8_t) = 2"
    by (rule coordinate_differences [OF assms(3)], simp)+
  have ax: "\<bar>sint (pos_y new_pos) - sint (pos_y cur_pos)\<bar> = 2 \<or>
            \<bar>sint (pos_x new_pos) - sint (pos_x cur_pos)\<bar> = 2"
    using assms(3,4) by (auto simp: adj_distance_def)
  have mx: "sint (pos_x cur_pos) + (sint (pos_x new_pos) - sint (pos_x cur_pos)) sdiv 2
            = (sint (pos_x cur_pos) + sint (pos_x new_pos)) div 2"
    using assms(3,4) by (intro halfway) (auto simp: adj_distance_def)
  have my: "sint (pos_y cur_pos) + (sint (pos_y new_pos) - sint (pos_y cur_pos)) sdiv 2
            = (sint (pos_y cur_pos) + sint (pos_y new_pos)) div 2"
    using assms(3,4) by (intro halfway) (auto simp: adj_distance_def)
  show ?thesis
    unfolding CheckMove_def Let_def d mx my
    using assms(1,2,5,6) ax by (simp add: midpoint_def)
qed

theorem CheckMove_straight_jump_returns_wall_test_witness:
  "IsPosLegal \<lparr>pos_x = 2, pos_y = 4\<rparr> \<and>
   IsPosFree side_by_side \<lparr>pos_x = 2, pos_y = 4\<rparr> \<and>
   adj_distance \<lparr>pos_x = 0, pos_y = 4\<rparr> \<lparr>pos_x = 2, pos_y = 4\<rparr> = 2 \<and>
   midpoint \<lparr>pos_x = 0, pos_y = 4\<rparr> \<lparr>pos_x = 2, pos_y = 4\<rparr> = \<lparr>pos_x = 1, pos_y = 4\<rparr> \<and>
   \<not> IsPosFree side_by_side \<lparr>pos_x = 1, pos_y = 4\<rparr> \<and>
   IsWallBetweenAdjPos True side_by_side \<lparr>pos_x = 0, pos_y = 4\<rparr> \<lparr>pos_x = 2, pos_y = 4\<rparr> = Inr False \<and>
   IsWallBetweenAdjPos True side_by_side \<lparr>pos_x = 1, pos_y = 4\<rparr> \<lparr>pos_x = 2, pos_y = 4\<rparr> = Inr False \<and>
   CheckMove True side_by_side \<lparr>pos_x = 0, pos_y = 4\<rparr> \<lparr>pos_x = 2, pos_y = 4\<rparr> = Inr False"
proof -
  have m: "midpoint \<lparr>pos_x = 0, pos_y = 4\<rparr> \<lparr>pos_x = 2, pos_y = 4\<rparr> = \<lparr>pos_x = 1, pos_y = 4\<rparr>"
    by (simp add: midpoint_def)
  have h1: "IsPosLegal \<lparr>pos_x = 2, pos_y = 4\<rparr>"
    by (simp add: geometry_defs)
  have h2: "IsPosFree side_by_side \<lparr>pos_x = 2, pos_y = 4\<rparr>"
    by (simp add: geometry_defs side_by_side_def)
  have h3: "adj_distance \<lparr>pos_x = 0, pos_y = 4\<rparr> \<lparr>pos_x = 2, pos_y = 4\<rparr> = 2"
    by (simp add: geometry_defs)
  have h4: "pos_x \<lparr>pos_x = 0, pos_y = 4\<rparr> = pos_x \<lparr>pos_x = 2, pos_y = 4 :: int8_t\<rparr> \<or>
            pos_y \<lparr>pos_x = 0 :: int8_t, pos_y = 4\<rparr> = pos_y \<lparr>pos_x = 2 :: int8_t, pos_y = 4 :: int8_t\<rparr>"
    by simp
  have h5: "\<not> IsPosFree side_by_side (midpoint \<lparr>pos_x = 0, pos_y = 4\<rparr> \<lparr>pos_x = 2, pos_y = 4\<rparr>)"
    by (simp add: m geometry_defs side_by_side_def)
  have h6: "IsWallBetweenAdjPos True side_by_side \<lparr>pos_x = 0, pos_y = 4\<rparr> \<lparr>pos_x = 2, pos_y = 4\<rparr>
            = Inr False"
    by (simp add: IsWallBetweenAdjPos_def geometry_defs side_by_side_def)
  have w: "IsWallBetweenAdjPos True side_by_side \<lparr>pos_x = 1, pos_y = 4\<rparr> \<lparr>pos_x = 2, pos_y = 4\<rparr>
           = Inr False"
    by (simp add: IsWallBetweenAdjPos_def geometry_defs side_by_side_def)
  show ?thesis
    using CheckMove_straight_jump_returns_wall_test [OF h1 h2 h3 h4 h5 h6] m h1 h2 h3 h5 h6 w
    by simp
qed

text \<open>
  C4. The claim: on every call \<^verbatim>\<open>CheckMove\<close> makes to \<^verbatim>\<open>IsWallBetweenAdjPos\<close> the
  asserted precondition (distance exactly 1) holds. The code calls the helper on the
  current and the target position before it looks at their distance again: in the build
  with assertions, every call of \<^verbatim>\<open>CheckMove\<close> with a legal, unoccupied target at
  distance 2 ends in the failed assertion.
\<close>

theorem CheckMove_distance_two_fails_assertion:
  assumes "IsPosLegal new_pos"
    and "IsPosFree e new_pos"
    and "adj_distance cur_pos new_pos = 2"
  shows "CheckMove False e cur_pos new_pos = Inl AssertionFailure"
proof -
  have d: "sint (pos_x new_pos - pos_x cur_pos) = sint (pos_x new_pos) - sint (pos_x cur_pos)"
    "sint (pos_y new_pos - pos_y cur_pos) = sint (pos_y new_pos) - sint (pos_y cur_pos)"
    "sint (word_of_int (\<bar>sint (pos_x new_pos) - sint (pos_x cur_pos)\<bar>
                        + \<bar>sint (pos_y new_pos) - sint (pos_y cur_pos)\<bar>) :: int8_t) = 2"
    by (rule coordinate_differences [OF assms(3)], simp)+
  show ?thesis
    unfolding CheckMove_def Let_def d
    using assms by (simp add: IsWallBetweenAdjPos_def assert_fails_def)
qed

theorem CheckMove_distance_two_fails_assertion_witness:
  "IsPosLegal \<lparr>pos_x = 2, pos_y = 4\<rparr> \<and>
   IsPosFree side_by_side \<lparr>pos_x = 2, pos_y = 4\<rparr> \<and>
   adj_distance \<lparr>pos_x = 0, pos_y = 4\<rparr> \<lparr>pos_x = 2, pos_y = 4\<rparr> = 2 \<and>
   CheckMove False side_by_side \<lparr>pos_x = 0, pos_y = 4\<rparr> \<lparr>pos_x = 2, pos_y = 4\<rparr> = Inl AssertionFailure"
proof -
  have h1: "IsPosLegal \<lparr>pos_x = 2, pos_y = 4\<rparr>"
    by (simp add: geometry_defs)
  have h2: "IsPosFree side_by_side \<lparr>pos_x = 2, pos_y = 4\<rparr>"
    by (simp add: geometry_defs side_by_side_def)
  have h3: "adj_distance \<lparr>pos_x = 0, pos_y = 4\<rparr> \<lparr>pos_x = 2, pos_y = 4\<rparr> = 2"
    by (simp add: geometry_defs)
  show ?thesis
    using CheckMove_distance_two_fails_assertion [OF h1 h2 h3] h1 h2 h3 by simp
qed

subsection \<open>GetGoalPosForPlayerIndex\<close>

lemma goal_of_first_player:
  "GetGoalPosForPlayerIndex 0 = Inr ((\<lambda>j. \<lparr>pos_x = 8, pos_y = j\<rparr>) ` {0, 1, 2, 3, 4, 5, 6, 7, 8})"
  by (simp add: GetGoalPosForPlayerIndex_def at_index_def player_positions_def
      m_board_side_length_def insert_commute)

lemma goal_of_second_player:
  "GetGoalPosForPlayerIndex 1 = Inr ((\<lambda>j. \<lparr>pos_x = 0, pos_y = j\<rparr>) ` {0, 1, 2, 3, 4, 5, 6, 7, 8})"
  by (simp add: GetGoalPosForPlayerIndex_def at_index_def player_positions_def
      m_board_side_length_def insert_commute)

lemma goal_of_no_player:
  "player_index < 0 \<or> player_index > 4 \<Longrightarrow> GetGoalPosForPlayerIndex player_index = Inr {}"
  by (simp add: GetGoalPosForPlayerIndex_def)

text \<open>
  C5. The claim: outside 0..3 the result is the empty set, and for 0..3 it is the edge
  row or column opposite the player's start. The code's guard lets index 4 through to a
  read past the end of \<^verbatim>\<open>player_positions\<close>, and for the players that start at (4,0)
  and (4,8) it returns the middle row \<open>y = 4\<close>: the coordinate is computed from the
  start's \<open>x\<close> in both branches.
\<close>

theorem GetGoalPosForPlayerIndex_at_2_3_4:
  "GetGoalPosForPlayerIndex 4 = Inl IndexOutOfBounds \<and>
   GetGoalPosForPlayerIndex 2 = Inr ((\<lambda>j. \<lparr>pos_x = j, pos_y = 4\<rparr>) ` {0, 1, 2, 3, 4, 5, 6, 7, 8}) \<and>
   GetGoalPosForPlayerIndex 3 = Inr ((\<lambda>j. \<lparr>pos_x = j, pos_y = 4\<rparr>) ` {0, 1, 2, 3, 4, 5, 6, 7, 8})"
  by (simp add: GetGoalPosForPlayerIndex_def at_index_def player_positions_def
      m_board_side_length_def insert_commute)

subsection \<open>The commands\<close>

lemma upto_indices: "[0..(1::int)] = [0, 1]" "[0..(3::int)] = [0, 1, 2, 3]"
  by (simp_all add: upto.simps)

lemma names_shape:
  fixes player_names :: "string list"
  obtains (few) "length player_names < 2"
  | (two) a b rest where "player_names = a # b # rest" and "length rest < 2"
  | (four) a b c d rest where "player_names = a # b # c # d # rest"
proof (cases player_names)
  case Nil
  then show ?thesis using few by simp
next
  case l0: (Cons a l1)
  show ?thesis
  proof (cases l1)
    case Nil
    then show ?thesis using few l0 by simp
  next
    case l1: (Cons b l2)
    show ?thesis
    proof (cases l2)
      case Nil
      then show ?thesis using two [of a b "[]"] l0 l1 by simp
    next
      case l2: (Cons c l3)
      show ?thesis
      proof (cases l3)
        case Nil
        then show ?thesis using two [of a b "[c]"] l0 l1 l2 by simp
      next
        case (Cons d l4)
        then show ?thesis using four [of a b c d l4] l0 l1 l2 by simp
      qed
    qed
  qed
qed

lemma QuoridorInit_closed_form:
  "QuoridorInit e player_names =
     (if length player_names < 2 then (Some TooFewPlayersException, e)
      else (None, e\<lparr>m_board := (m_board e)\<lparr>players := players (m_board e) @
              map (\<lambda>(p, n). \<lparr>piece_pos = p, piece_name = n\<rparr>)
                (zip player_positions
                   (take (if length player_names < 4 then 2 else 4) player_names))\<rparr>\<rparr>))"
proof (cases player_names rule: names_shape)
  case few
  then show ?thesis by (simp add: QuoridorInit_def)
next
  case two
  then show ?thesis
    by (simp add: QuoridorInit_def at_index_def player_positions_def upto_indices)
next
  case four
  then show ?thesis
    by (simp add: QuoridorInit_def at_index_def player_positions_def upto_indices)
qed

text \<open>
  C9. \<^verbatim>\<open>QuoridorInit\<close> on \<open>k\<close> names: for \<open>k < 2\<close> it throws
  \<^verbatim>\<open>TooFewPlayersException\<close> and adds no piece; for \<open>k = 2\<close> or \<open>k = 3\<close> it returns
  normally having appended exactly 2 pieces, for \<open>k \<ge> 4\<close> exactly 4 pieces; piece \<open>i\<close>
  carries the \<open>i\<close>-th name and stands at \<^verbatim>\<open>player_positions[i]\<close>; further names are
  ignored.
\<close>

theorem QuoridorInit_roster:
  "(length player_names < 2 \<longrightarrow>
      QuoridorInit e player_names = (Some TooFewPlayersException, e)) \<and>
   (length player_names = 2 \<or> length player_names = 3 \<longrightarrow>
      QuoridorInit e player_names =
        (None, e\<lparr>m_board := (m_board e)\<lparr>players := players (m_board e) @
           map (\<lambda>i. \<lparr>piece_pos = player_positions ! i, piece_name = player_names ! i\<rparr>) [0..<2]\<rparr>\<rparr>)) \<and>
   (length player_names \<ge> 4 \<longrightarrow>
      QuoridorInit e player_names =
        (None, e\<lparr>m_board := (m_board e)\<lparr>players := players (m_board e) @
           map (\<lambda>i. \<lparr>piece_pos = player_positions ! i, piece_name = player_names ! i\<rparr>) [0..<4]\<rparr>\<rparr>))"
proof (cases player_names rule: names_shape)
  case few
  then show ?thesis by (simp add: QuoridorInit_closed_form)
next
  case two
  have "[0..<2] = [0, Suc 0]" by (simp add: upt_rec)
  with two show ?thesis
    by (auto simp: QuoridorInit_closed_form player_positions_def)
next
  case four
  have "[0..<4] = [0, 1, 2, 3]" by (simp add: upt_rec)
  with four show ?thesis
    by (simp add: QuoridorInit_closed_form player_positions_def)
qed

theorem QuoridorInit_roster_witness:
  "QuoridorInit side_by_side [''C''] = (Some TooFewPlayersException, side_by_side) \<and>
   QuoridorInit empty_engine [''A'', ''B'', ''C''] =
     (None, empty_engine\<lparr>m_board := \<lparr>players =
        [\<lparr>piece_pos = \<lparr>pos_x = 0, pos_y = 4\<rparr>, piece_name = ''A''\<rparr>,
         \<lparr>piece_pos = \<lparr>pos_x = 8, pos_y = 4\<rparr>, piece_name = ''B''\<rparr>], walls = []\<rparr>\<rparr>) \<and>
   QuoridorInit empty_engine [''A'', ''B'', ''C'', ''D'', ''E''] =
     (None, empty_engine\<lparr>m_board := \<lparr>players =
        [\<lparr>piece_pos = \<lparr>pos_x = 0, pos_y = 4\<rparr>, piece_name = ''A''\<rparr>,
         \<lparr>piece_pos = \<lparr>pos_x = 8, pos_y = 4\<rparr>, piece_name = ''B''\<rparr>,
         \<lparr>piece_pos = \<lparr>pos_x = 4, pos_y = 0\<rparr>, piece_name = ''C''\<rparr>,
         \<lparr>piece_pos = \<lparr>pos_x = 4, pos_y = 8\<rparr>, piece_name = ''D''\<rparr>], walls = []\<rparr>\<rparr>)"
proof -
  have i2: "[0..<2] = [0, Suc 0]" and i4: "[0..<4] = [0, 1, 2, 3]"
    by (simp_all add: upt_rec)
  show ?thesis
    using QuoridorInit_roster [of "[''C'']" side_by_side]
      QuoridorInit_roster [of "[''A'', ''B'', ''C'']" empty_engine]
      QuoridorInit_roster [of "[''A'', ''B'', ''C'', ''D'', ''E'']" empty_engine]
    by (simp add: i2 i4 player_positions_def empty_engine_def)
qed

text \<open>
  C6 as stated: a wall that fails \<^verbatim>\<open>CheckAddWall\<close> is rejected with an
  error kind of its own, distinguishable from the kind of a rejected pawn move. The
  code has one exception class for both: a horizontal wall in slot (6,6), where a
  vertical wall already stands, is rejected with \<^verbatim>\<open>IllegalMoveException\<close>, and so is a
  move off the board.
\<close>

theorem AddWall_error_kind_counterexample:
  "\<not> CheckAddWall side_by_side \<lparr>wall_pos = \<lparr>pos_x = 6, pos_y = 6\<rparr>, vertical = False\<rparr> \<and>
   fst (AddWall side_by_side \<lparr>wall_pos = \<lparr>pos_x = 6, pos_y = 6\<rparr>, vertical = False\<rparr>)
     = Some IllegalMoveException \<and>
   fst (MovePlayer True side_by_side ''A'' \<lparr>pos_x = 9, pos_y = 4\<rparr>) = Some IllegalMoveException"
  by (simp add: AddWall_def CheckAddWall_def MovePlayer_def GetPlayerPos_def findPlayer_def
      CheckMove_def geometry_defs side_by_side_def)

text \<open>
  C6, amended. For every wall that fails \<^verbatim>\<open>CheckAddWall\<close>, \<^verbatim>\<open>AddWall\<close> throws
  \<^verbatim>\<open>IllegalMoveException\<close>, the exception \<^verbatim>\<open>MovePlayer\<close> throws for an illegal move,
  and leaves the engine as it was.
\<close>

theorem AddWall_rejects_with_IllegalMove:
  assumes "\<not> CheckAddWall e wall"
  shows "AddWall e wall = (Some IllegalMoveException, e)"
  using assms by (simp add: AddWall_def)

theorem AddWall_rejects_with_IllegalMove_witness:
  "\<not> CheckAddWall side_by_side \<lparr>wall_pos = \<lparr>pos_x = 8, pos_y = 0\<rparr>, vertical = True\<rparr> \<and>
   AddWall side_by_side \<lparr>wall_pos = \<lparr>pos_x = 8, pos_y = 0\<rparr>, vertical = True\<rparr>
     = (Some IllegalMoveException, side_by_side)"
proof -
  have h: "\<not> CheckAddWall side_by_side \<lparr>wall_pos = \<lparr>pos_x = 8, pos_y = 0\<rparr>, vertical = True\<rparr>"
    by (simp add: CheckAddWall_def geometry_defs)
  show ?thesis
    using h AddWall_rejects_with_IllegalMove [OF h] by simp
qed

text \<open>
  C7. Whenever \<^verbatim>\<open>MovePlayer\<close>, \<^verbatim>\<open>AddWall\<close> or \<^verbatim>\<open>QuoridorInit\<close> ends with an error, the
  engine it leaves (board players, board walls, the wall set, the current player) is the
  engine it was called on.
\<close>

theorem rejected_command_leaves_engine_unchanged:
  "(fst (MovePlayer ndebug e player_name new_pos) \<noteq> None \<longrightarrow>
      snd (MovePlayer ndebug e player_name new_pos) = e) \<and>
   (fst (AddWall e wall) \<noteq> None \<longrightarrow> snd (AddWall e wall) = e) \<and>
   (fst (QuoridorInit e player_names) \<noteq> None \<longrightarrow> snd (QuoridorInit e player_names) = e)"
  by (simp add: MovePlayer_def AddWall_def QuoridorInit_closed_form Let_def
      split: sum.splits bool.splits)

theorem rejected_command_leaves_engine_unchanged_witness:
  "MovePlayer True side_by_side ''A'' \<lparr>pos_x = 9, pos_y = 4\<rparr>
     = (Some IllegalMoveException, side_by_side) \<and>
   MovePlayer True side_by_side ''Z'' \<lparr>pos_x = 2, pos_y = 4\<rparr>
     = (Some PlayerNotFoundException, side_by_side) \<and>
   AddWall side_by_side \<lparr>wall_pos = \<lparr>pos_x = 6, pos_y = 6\<rparr>, vertical = False\<rparr>
     = (Some IllegalMoveException, side_by_side) \<and>
   QuoridorInit side_by_side [''C''] = (Some TooFewPlayersException, side_by_side)"
proof -
  have m1: "fst (MovePlayer True side_by_side ''A'' \<lparr>pos_x = 9, pos_y = 4\<rparr>) = Some IllegalMoveException"
    by (simp add: MovePlayer_def GetPlayerPos_def findPlayer_def CheckMove_def geometry_defs
        side_by_side_def)
  have m2: "fst (MovePlayer True side_by_side ''Z'' \<lparr>pos_x = 2, pos_y = 4\<rparr>) = Some PlayerNotFoundException"
    by (simp add: MovePlayer_def GetPlayerPos_def findPlayer_def side_by_side_def)
  have a: "fst (AddWall side_by_side \<lparr>wall_pos = \<lparr>pos_x = 6, pos_y = 6\<rparr>, vertical = False\<rparr>)
           = Some IllegalMoveException"
    by (simp add: AddWall_def CheckAddWall_def geometry_defs side_by_side_def)
  have q: "fst (QuoridorInit side_by_side [''C'']) = Some TooFewPlayersException"
    by (simp add: QuoridorInit_def)
  show ?thesis
    using m1 m2 a q
      rejected_command_leaves_engine_unchanged
        [of True side_by_side "''A''" "\<lparr>pos_x = 9, pos_y = 4\<rparr>"
            "\<lparr>wall_pos = \<lparr>pos_x = 6, pos_y = 6\<rparr>, vertical = False\<rparr>" "[''C'']"]
      rejected_command_leaves_engine_unchanged
        [of True side_by_side "''Z''" "\<lparr>pos_x = 2, pos_y = 4\<rparr>"
            "\<lparr>wall_pos = \<lparr>pos_x = 6, pos_y = 6\<rparr>, vertical = False\<rparr>" "[''C'']"]
    by (simp add: prod_eq_iff)
qed

text \<open>
  C10. None of the commands \<^verbatim>\<open>MovePlayer\<close>, \<^verbatim>\<open>AddWall\<close> and \<^verbatim>\<open>QuoridorInit\<close> changes
  \<^verbatim>\<open>m_current_player\<close>, whether it succeeds or fails; only \<^verbatim>\<open>NextTurn\<close> writes it, and
  no command calls \<^verbatim>\<open>NextTurn\<close>.
\<close>

theorem commands_keep_current_player:
  "m_current_player (snd (MovePlayer ndebug e player_name new_pos)) = m_current_player e \<and>
   m_current_player (snd (AddWall e wall)) = m_current_player e \<and>
   m_current_player (snd (QuoridorInit e player_names)) = m_current_player e"
  by (simp add: MovePlayer_def AddWall_def set_pos_at_def QuoridorInit_closed_form Let_def
      split: sum.splits bool.splits)

theorem commands_keep_current_player_witness:
  "fst (MovePlayer False side_by_side ''B'' \<lparr>pos_x = 1, pos_y = 5\<rparr>) = None \<and>
   m_current_player (snd (MovePlayer False side_by_side ''B'' \<lparr>pos_x = 1, pos_y = 5\<rparr>)) = 0 \<and>
   fst (AddWall side_by_side \<lparr>wall_pos = \<lparr>pos_x = 0, pos_y = 0\<rparr>, vertical = True\<rparr>) = None \<and>
   m_current_player (snd (AddWall side_by_side \<lparr>wall_pos = \<lparr>pos_x = 0, pos_y = 0\<rparr>, vertical = True\<rparr>)) = 0 \<and>
   m_current_player (snd (QuoridorInit side_by_side [''C'', ''D''])) = 0"
proof -
  have m: "fst (MovePlayer False side_by_side ''B'' \<lparr>pos_x = 1, pos_y = 5\<rparr>) = None"
    by (simp add: MovePlayer_def GetPlayerPos_def findPlayer_def pos_at_def CheckMove_def
        IsWallBetweenAdjPos_def geometry_defs side_by_side_def)
  have a: "fst (AddWall side_by_side \<lparr>wall_pos = \<lparr>pos_x = 0, pos_y = 0\<rparr>, vertical = True\<rparr>) = None"
    by (simp add: AddWall_def CheckAddWall_def geometry_defs side_by_side_def)
  have c: "m_current_player side_by_side = 0"
    by (simp add: side_by_side_def)
  show ?thesis
    using m a c
      commands_keep_current_player
        [of False side_by_side "''B''" "\<lparr>pos_x = 1, pos_y = 5\<rparr>"
            "\<lparr>wall_pos = \<lparr>pos_x = 0, pos_y = 0\<rparr>, vertical = True\<rparr>" "[''C'', ''D'']"]
    by simp
qed

subsection \<open>NextTurn\<close>

lemma NextTurn_players: "players (m_board (NextTurn e)) = players (m_board e)"
  by (simp add: NextTurn_def Let_def)

lemma NextTurn_iterated_players: "players (m_board ((NextTurn ^^ k) e)) = players (m_board e)"
  by (induction k) (simp_all add: NextTurn_players)

lemma NextTurn_iterated_index:
  assumes "0 \<le> m_current_player e"
    and "m_current_player e < int (length (players (m_board e)))"
  shows "m_current_player ((NextTurn ^^ k) e) =
           (m_current_player e + int k) mod int (length (players (m_board e)))"
proof (induction k)
  case 0
  then show ?case using assms by simp
next
  case (Suc k)
  let ?n = "int (length (players (m_board e)))"
  let ?c = "(m_current_player e + int k) mod ?n"
  have n: "0 < ?n"
    using assms by linarith
  have r: "0 \<le> ?c" "?c < ?n"
    using n by simp_all
  have "m_current_player (NextTurn ((NextTurn ^^ k) e)) = (if ?c + 1 = ?n then 0 else ?c + 1)"
    by (simp add: NextTurn_def Let_def NextTurn_iterated_players Suc.IH)
  also have "\<dots> = (?c + 1) mod ?n"
    using r by simp
  also have "\<dots> = (m_current_player e + int k + 1) mod ?n"
    by (simp only: mod_add_left_eq)
  also have "\<dots> = (m_current_player e + int (Suc k)) mod ?n"
    by (simp add: algebra_simps)
  finally show ?case by simp
qed

text \<open>
  C8. On a roster of \<open>n \<ge> 1\<close> players, with the current-player index in \<open>[0, n)\<close>,
  \<open>n\<close> calls of \<^verbatim>\<open>NextTurn\<close> bring the index back to where it was.
\<close>

theorem NextTurn_full_round:
  assumes "n = length (players (m_board e))"
    and "1 \<le> n"
    and "0 \<le> m_current_player e"
    and "m_current_player e < int n"
  shows "m_current_player ((NextTurn ^^ n) e) = m_current_player e"
  using NextTurn_iterated_index [of e n] assms by simp

theorem NextTurn_full_round_witness:
  "m_current_player ((NextTurn ^^ 2) (side_by_side\<lparr>m_current_player := 1\<rparr>)) = 1"
proof -
  have h: "(2::nat) = length (players (m_board (side_by_side\<lparr>m_current_player := 1\<rparr>)))"
    by (simp add: side_by_side_def)
  show ?thesis
    using NextTurn_full_round [OF h] by simp
qed

subsection \<open>CheckWallBlocksPath\<close>

lemma set_insert_sorted: "set (insert_sorted lt key v xs) = insert v (set xs)"
  by (induction xs) auto

lemma set_insert_neighbours:
  "set (insert_neighbours lt pos kvs) =
     {(pos_add pos down, pos), (pos_add pos up, pos),
      (pos_add pos right, pos), (pos_add pos left, pos)} \<union> set kvs"
  by (simp add: insert_neighbours_def multimap_insert_def set_insert_sorted)

lemma multimap_erase_absent: "\<forall>kv \<in> set kvs. fst kv \<noteq> k \<Longrightarrow> multimap_erase k kvs = kvs"
  by (simp add: multimap_erase_def)

lemma set_insert_member: "p \<in> set (set_insert lt p ps)"
  by (simp add: set_insert_def set_insert_sorted)

lemma set_insert_twice: "set_insert lt p (set_insert lt p ps) = set_insert lt p ps"
  using set_insert_member [of p lt ps] by (simp add: set_insert_def)

text \<open>
  The pair loop when every pair comes from the same position \<open>p\<close>, no assertion fails and
  \<open>p\<close> is no goal: it never breaks, and what it collects is \<open>p\<close> itself (the \<^verbatim>\<open>second\<close>
  of the pairs) as soon as one edge is open, in whatever order the pairs are visited.
\<close>

lemma check_pairs_one_source:
  assumes "\<forall>pp \<in> set ps. snd pp = p \<and>
             (IsWallBetweenAdjPos ndebug e p (fst pp) = Inr True \<or>
              IsWallBetweenAdjPos ndebug e p (fst pp) = Inr False \<and>
              IsWallBetweenAdjPos_wall ndebug p (fst pp) wall = Inr False)"
    and "p \<notin> goal_pos"
  shows "check_pairs lt ndebug e wall goal_pos ps reachable_pos =
           Inr (False,
                if \<exists>pp \<in> set ps. IsWallBetweenAdjPos ndebug e p (fst pp) = Inr False
                then set_insert lt p reachable_pos else reachable_pos)"
  using assms(1)
proof (induction ps arbitrary: reachable_pos)
  case Nil
  then show ?case by simp
next
  case (Cons pp ps)
  have sp: "snd pp = p"
    using Cons.prems by simp
  have rest: "\<forall>pp \<in> set ps. snd pp = p \<and>
             (IsWallBetweenAdjPos ndebug e p (fst pp) = Inr True \<or>
              IsWallBetweenAdjPos ndebug e p (fst pp) = Inr False \<and>
              IsWallBetweenAdjPos_wall ndebug p (fst pp) wall = Inr False)"
    using Cons.prems by simp
  consider (closed) "IsWallBetweenAdjPos ndebug e p (fst pp) = Inr True"
    | (opened) "IsWallBetweenAdjPos ndebug e p (fst pp) = Inr False"
        "IsWallBetweenAdjPos_wall ndebug p (fst pp) wall = Inr False"
    using Cons.prems by auto
  then show ?case
  proof cases
    case closed
    then show ?thesis
      using Cons.IH [OF rest] sp by simp
  next
    case opened
    then show ?thesis
      using Cons.IH [OF rest] sp assms(2) by (simp add: set_insert_twice)
  qed
qed

text \<open>
  C2. The claim: on a board without walls whose 2 or 4 players stand on the start
  positions, with a hypothetical wall outside the legal slot range,
  \<^verbatim>\<open>CheckWallBlocksPath\<close> returns false. The code does not get that far: for the first
  player it calls \<^verbatim>\<open>reachable_pos->insert( player_pos )\<close> on the pointer it has just
  value-initialised, which holds no set. This happens on every board with at least one
  player, for every wall, every ordering of the containers and in both builds.
\<close>

theorem CheckWallBlocksPath_dereferences_null:
  assumes "players (m_board e) \<noteq> []"
  shows "CheckWallBlocksPath lt ndebug e wall = Some (Inl NullPointerDereference)"
proof -
  have up: "[0..<length (players (m_board e))] = 0 # [Suc 0..<length (players (m_board e))]"
    using assms by (intro upt_conv_Cons) simp
  show ?thesis
    unfolding CheckWallBlocksPath_def up
    by (simp add: goal_of_first_player deref_def)
qed

theorem CheckWallBlocksPath_dereferences_null_witness:
  "m_walls_on_board (start_engine [''A'', ''B'']) = {} \<and>
   map piece_pos (players (m_board (start_engine [''A'', ''B'']))) = take 2 player_positions \<and>
   \<not> IsWallLegal no_wall \<and>
   CheckWallBlocksPath by_x_then_y True (start_engine [''A'', ''B'']) no_wall
     = Some (Inl NullPointerDereference) \<and>
   CheckWallBlocksPath by_x_then_y False (start_engine [''A'', ''B'', ''C'', ''D'']) no_wall
     = Some (Inl NullPointerDereference)"
proof -
  have h1: "m_walls_on_board (start_engine [''A'', ''B'']) = {}"
    by (simp add: start_engine_def QuoridorInit_closed_form empty_engine_def)
  have h2: "map piece_pos (players (m_board (start_engine [''A'', ''B''])))
            = take 2 player_positions"
    by (simp add: start_engine_def QuoridorInit_closed_form empty_engine_def player_positions_def)
  have h3: "\<not> IsWallLegal no_wall"
    by (simp add: no_wall_def geometry_defs)
  have p2: "players (m_board (start_engine [''A'', ''B''])) \<noteq> []"
    by (simp add: start_engine_def QuoridorInit_closed_form player_positions_def)
  have p4: "players (m_board (start_engine [''A'', ''B'', ''C'', ''D''])) \<noteq> []"
    by (simp add: start_engine_def QuoridorInit_closed_form player_positions_def)
  show ?thesis
    using h1 h2 h3 CheckWallBlocksPath_dereferences_null [OF p2]
      CheckWallBlocksPath_dereferences_null [OF p4]
    by simp
qed

text \<open>Without players the outer loop has nothing to do and the function returns false.\<close>

lemma CheckWallBlocksPath_no_players:
  "players (m_board e) = [] \<Longrightarrow> CheckWallBlocksPath lt ndebug e wall = Some (Inr False)"
  by (simp add: CheckWallBlocksPath_def)

text \<open>
  The loop itself, entered with both sets allocated, has a second defect: the pair loop
  tests and collects the position a pair came from (\<^verbatim>\<open>pos_pair.second\<close>), not the
  neighbour. A pass that hands on the containers it started from never ends, and from
  the first start position on a board without walls that is what every pass does.
\<close>

lemma while_true_diverges:
  assumes "while_body lt ndebug e wall goal_pos c = Inr (Inr c)"
  shows "while_true lt ndebug e wall goal_pos c = None"
proof (rule ccontr)
  assume "while_true lt ndebug e wall goal_pos c \<noteq> None"
  then obtain r where r: "while_true lt ndebug e wall goal_pos c = Some r"
    by auto
  have "while_body lt ndebug e wall goal_pos c \<noteq> Inr (Inr c)"
  proof (rule while_true.raw_induct
      [where P = "\<lambda>lt ndebug e wall goal_pos c r.
                    while_body lt ndebug e wall goal_pos c \<noteq> Inr (Inr c)",
       OF _ r])
    fix f lt ndebug e wall goal_pos c and r :: "error + loop_exit"
    assume ih: "\<And>lt ndebug e wall goal_pos c r.
        f lt ndebug e wall goal_pos c = Some r \<Longrightarrow>
        while_body lt ndebug e wall goal_pos c \<noteq> Inr (Inr c)"
      and step: "(case while_body lt ndebug e wall goal_pos c of
                    Inl err \<Rightarrow> Some (Inl err)
                  | Inr (Inl ex) \<Rightarrow> Some (Inr ex)
                  | Inr (Inr c') \<Rightarrow> f lt ndebug e wall goal_pos c') = Some r"
    show "while_body lt ndebug e wall goal_pos c \<noteq> Inr (Inr c)"
    proof
      assume b: "while_body lt ndebug e wall goal_pos c = Inr (Inr c)"
      with step have "f lt ndebug e wall goal_pos c = Some r"
        by simp
      from ih [OF this] b show False
        by simp
    qed
  qed
  with assms show False
    by simp
qed

lemma neighbours_of_first_start:
  "pos_add \<lparr>pos_x = 0, pos_y = 4\<rparr> left = \<lparr>pos_x = - 1, pos_y = 4\<rparr>"
  "pos_add \<lparr>pos_x = 0, pos_y = 4\<rparr> right = \<lparr>pos_x = 1, pos_y = 4\<rparr>"
  "pos_add \<lparr>pos_x = 0, pos_y = 4\<rparr> up = \<lparr>pos_x = 0, pos_y = 3\<rparr>"
  "pos_add \<lparr>pos_x = 0, pos_y = 4\<rparr> down = \<lparr>pos_x = 0, pos_y = 5\<rparr>"
  by (simp_all add: pos_add_def left_def right_def up_def down_def)

lemma edges_of_first_start:
  assumes "m_walls_on_board e = {}"
  shows "IsWallBetweenAdjPos ndebug e \<lparr>pos_x = 0, pos_y = 4\<rparr> \<lparr>pos_x = - 1, pos_y = 4\<rparr> = Inr True"
    and "IsWallBetweenAdjPos ndebug e \<lparr>pos_x = 0, pos_y = 4\<rparr> \<lparr>pos_x = 1, pos_y = 4\<rparr> = Inr False"
    and "IsWallBetweenAdjPos ndebug e \<lparr>pos_x = 0, pos_y = 4\<rparr> \<lparr>pos_x = 0, pos_y = 3\<rparr> = Inr False"
    and "IsWallBetweenAdjPos ndebug e \<lparr>pos_x = 0, pos_y = 4\<rparr> \<lparr>pos_x = 0, pos_y = 5\<rparr> = Inr False"
  using assms by (simp_all add: IsWallBetweenAdjPos_def geometry_defs)

lemma illegal_wall_is_nowhere:
  assumes "\<not> IsWallLegal wall" and "adj_distance a b = 1"
  shows "IsWallBetweenAdjPos_wall ndebug a b wall = Inr False"
  using assms by (simp add: IsWallBetweenAdjPos_wall_def assert_fails_def)

lemma while_body_first_start:
  assumes w: "m_walls_on_board e = {}"
    and h: "\<not> IsWallLegal wall"
    and g: "\<lparr>pos_x = 0, pos_y = 4\<rparr> \<notin> goal_pos"
    and l: "last_iter = [] \<or> last_iter = [\<lparr>pos_x = 0, pos_y = 4\<rparr>]"
  shows "while_body lt ndebug e wall goal_pos
           (Some [\<lparr>pos_x = 0, pos_y = 4\<rparr>], Some last_iter, []) =
           Inr (Inr (Some [\<lparr>pos_x = 0, pos_y = 4\<rparr>], Some [\<lparr>pos_x = 0, pos_y = 4\<rparr>], []))"
proof -
  let ?p = "\<lparr>pos_x = 0, pos_y = 4\<rparr> :: Pos_t"
  let ?pairs = "insert_neighbours lt ?p []"
  have s: "set ?pairs = {(\<lparr>pos_x = 0, pos_y = 5\<rparr>, ?p), (\<lparr>pos_x = 0, pos_y = 3\<rparr>, ?p),
                         (\<lparr>pos_x = 1, pos_y = 4\<rparr>, ?p), (\<lparr>pos_x = - 1, pos_y = 4\<rparr>, ?p)}"
    by (simp add: set_insert_neighbours neighbours_of_first_start)
  have er: "fold multimap_erase last_iter ?pairs = ?pairs"
    using l by (auto simp: s intro!: multimap_erase_absent)
  have d: "adj_distance ?p \<lparr>pos_x = 0, pos_y = 5\<rparr> = 1" "adj_distance ?p \<lparr>pos_x = 0, pos_y = 3\<rparr> = 1"
    "adj_distance ?p \<lparr>pos_x = 1, pos_y = 4\<rparr> = 1" "adj_distance ?p \<lparr>pos_x = - 1, pos_y = 4\<rparr> = 1"
    by (simp_all add: adj_distance_def)
  have ck: "check_pairs lt ndebug e wall goal_pos ?pairs [] = Inr (False, [?p])"
    by (subst check_pairs_one_source [where p = ?p])
       (simp_all add: s g edges_of_first_start [OF w] illegal_wall_is_nowhere [OF h] d
          set_insert_def)
  show ?thesis
    by (simp add: while_body_def deref_def er ck)
qed

lemma while_true_allocated_never_leaves:
  assumes w: "m_walls_on_board e = {}"
    and h: "\<not> IsWallLegal wall"
    and g: "\<lparr>pos_x = 0, pos_y = 4\<rparr> \<notin> goal_pos"
  shows "while_true lt ndebug e wall goal_pos (Some [\<lparr>pos_x = 0, pos_y = 4\<rparr>], Some [], []) = None"
proof -
  have "while_true lt ndebug e wall goal_pos
          (Some [\<lparr>pos_x = 0, pos_y = 4\<rparr>], Some [\<lparr>pos_x = 0, pos_y = 4\<rparr>], []) = None"
    by (rule while_true_diverges) (simp add: while_body_first_start [OF w h g])
  then show ?thesis
    by (subst while_true.simps) (simp add: while_body_first_start [OF w h g])
qed

text \<open>
  Entered as the function enters it, with \<^verbatim>\<open>last_iter_pos\<close> holding nothing, the loop
  stops in its first pass at \<^verbatim>\<open>last_iter_pos->empty()\<close>.
\<close>

lemma while_true_null_last_iter_pos:
  "while_true lt ndebug e wall goal_pos (Some reachable, None, pairs)
     = Some (Inl NullPointerDereference)"
  by (subst while_true.simps) (simp add: while_body_def deref_def)

end
